theory Spec2Isabelle
  imports Main
begin

section \<open>Domain types (types/fridge.ts)\<close>

text \<open>
  JavaScript strings are modelled as \<^typ>\<open>string\<close>; text outside ASCII (the display
  names) is held as its UTF-8 bytes. Every string operation of the modelled code
  (concatenation, equality, the pattern \<^verbatim>\<open>/-\d+$/\<close>) acts on ASCII characters only,
  so the choice of encoding does not change a result.
  Where two source records share a field name, the later one carries a suffix.
\<close>

datatype CompartmentTypeId =
  refrigerator | freezer | vegetable | quickFreeze | variableTemp
  | iceMaker | softFreeze | vacuum | chilled

record CompartmentTypeInfo =
  name_t :: string
  icon_t :: string
  tempRange_t :: string
  color_t :: string

fun COMPARTMENT_TYPES :: "CompartmentTypeId \<Rightarrow> CompartmentTypeInfo" where
  "COMPARTMENT_TYPES refrigerator =
     \<lparr>name_t = [CHR 0xE5, CHR 0x86, CHR 0xB7, CHR 0xE8, CHR 0x97, CHR 0x8F, CHR 0xE5, CHR 0xAE, CHR 0xA4],
      icon_t = [CHR 0xF0, CHR 0x9F, CHR 0xA5, CHR 0xA9],
      tempRange_t = [CHR ''2'', CHR ''~'', CHR ''8'', CHR 0xC2, CHR 0xB0, CHR ''C''],
      color_t = ''#E3F2FD''\<rparr>"
| "COMPARTMENT_TYPES freezer =
     \<lparr>name_t = [CHR 0xE5, CHR 0x86, CHR 0xB7, CHR 0xE5, CHR 0x87, CHR 0x8D, CHR 0xE5, CHR 0xAE, CHR 0xA4],
      icon_t = [CHR 0xF0, CHR 0x9F, CHR 0xA7, CHR 0x8A],
      tempRange_t = [CHR ''-'', CHR ''1'', CHR ''8'', CHR ''~'', CHR ''-'', CHR ''2'', CHR ''4'', CHR 0xC2, CHR 0xB0, CHR ''C''],
      color_t = ''#E1F5FE''\<rparr>"
| "COMPARTMENT_TYPES vegetable =
     \<lparr>name_t = [CHR 0xE8, CHR 0x94, CHR 0xAC, CHR 0xE6, CHR 0x9E, CHR 0x9C, CHR 0xE4, CHR 0xBF, CHR 0x9D, CHR 0xE9, CHR 0xAE, CHR 0xAE, CHR 0xE5, CHR 0xAE, CHR 0xA4],
      icon_t = [CHR 0xF0, CHR 0x9F, CHR 0xA5, CHR 0xAC],
      tempRange_t = [CHR ''3'', CHR ''~'', CHR ''8'', CHR 0xC2, CHR 0xB0, CHR ''C''],
      color_t = ''#E8F5E9''\<rparr>"
| "COMPARTMENT_TYPES quickFreeze =
     \<lparr>name_t = [CHR 0xE6, CHR 0x80, CHR 0xA5, CHR 0xE9, CHR 0x80, CHR 0x9F, CHR 0xE5, CHR 0x86, CHR 0xB7, CHR 0xE5, CHR 0x87, CHR 0x8D, CHR 0xE5, CHR 0xAE, CHR 0xA4],
      icon_t = [CHR 0xE2, CHR 0x9D, CHR 0x84, CHR 0xEF, CHR 0xB8, CHR 0x8F],
      tempRange_t = [CHR ''-'', CHR ''3'', CHR ''0'', CHR ''~'', CHR ''-'', CHR ''4'', CHR ''0'', CHR 0xC2, CHR 0xB0, CHR ''C''],
      color_t = ''#B3E5FC''\<rparr>"
| "COMPARTMENT_TYPES variableTemp =
     \<lparr>name_t = [CHR 0xE8, CHR 0xAE, CHR 0x8A, CHR 0xE6, CHR 0xBA, CHR 0xAB, CHR 0xE5, CHR 0xAE, CHR 0xA4],
      icon_t = [CHR 0xF0, CHR 0x9F, CHR 0x94, CHR 0x84],
      tempRange_t = [CHR ''-'', CHR ''1'', CHR ''8'', CHR ''~'', CHR ''8'', CHR 0xC2, CHR 0xB0, CHR ''C''],
      color_t = ''#FFF3E0''\<rparr>"
| "COMPARTMENT_TYPES iceMaker =
     \<lparr>name_t = [CHR 0xE8, CHR 0xA3, CHR 0xBD, CHR 0xE5, CHR 0x86, CHR 0xB0, CHR 0xE5, CHR 0xAE, CHR 0xA4],
      icon_t = [CHR 0xF0, CHR 0x9F, CHR 0xA7, CHR 0x8A],
      tempRange_t = [CHR 0xE7, CHR 0x8D, CHR 0xA8, CHR 0xE7, CHR 0xAB, CHR 0x8B, CHR 0xE8, CHR 0xA3, CHR 0xBD, CHR 0xE5, CHR 0x86, CHR 0xB0],
      color_t = ''#E0F7FA''\<rparr>"
| "COMPARTMENT_TYPES softFreeze =
     \<lparr>name_t = [CHR 0xE5, CHR 0xBE, CHR 0xAE, CHR 0xE5, CHR 0x87, CHR 0x8D, CHR 0xE4, CHR 0xBF, CHR 0x9D, CHR 0xE9, CHR 0xAE, CHR 0xAE, CHR 0xE5, CHR 0xAE, CHR 0xA4],
      icon_t = [CHR 0xF0, CHR 0x9F, CHR 0xA5, CHR 0xA9],
      tempRange_t = [CHR ''-'', CHR ''3'', CHR ''~'', CHR ''-'', CHR ''1'', CHR 0xC2, CHR 0xB0, CHR ''C''],
      color_t = ''#FCE4EC''\<rparr>"
| "COMPARTMENT_TYPES vacuum =
     \<lparr>name_t = [CHR 0xE7, CHR 0x9C, CHR 0x9F, CHR 0xE7, CHR 0xA9, CHR 0xBA, CHR 0xE5, CHR 0x86, CHR 0xB7, CHR 0xE8, CHR 0x97, CHR 0x8F, CHR 0xE5, CHR 0xAE, CHR 0xA4],
      icon_t = [CHR 0xF0, CHR 0x9F, CHR 0xAB, CHR 0x99],
      tempRange_t = [CHR 0xE7, CHR 0xB4, CHR 0x84, CHR ''1'', CHR 0xC2, CHR 0xB0, CHR ''C''],
      color_t = ''#F3E5F5''\<rparr>"
| "COMPARTMENT_TYPES chilled =
     \<lparr>name_t = [CHR 0xE5, CHR 0x86, CHR 0xB0, CHR 0xE9, CHR 0xAE, CHR 0xAE, CHR 0xE5, CHR 0xAE, CHR 0xA4],
      icon_t = [CHR 0xF0, CHR 0x9F, CHR 0x90, CHR 0x9F],
      tempRange_t = [CHR ''-'', CHR ''1'', CHR ''~'', CHR ''1'', CHR 0xC2, CHR 0xB0, CHR ''C''],
      color_t = ''#E8EAF6''\<rparr>"

text \<open>The string a \<open>CompartmentTypeId\<close> is at run time (the literal of the union type).\<close>

fun typeId_string :: "CompartmentTypeId \<Rightarrow> string" where
  "typeId_string refrigerator = ''refrigerator''"
| "typeId_string freezer = ''freezer''"
| "typeId_string vegetable = ''vegetable''"
| "typeId_string quickFreeze = ''quickFreeze''"
| "typeId_string variableTemp = ''variableTemp''"
| "typeId_string iceMaker = ''iceMaker''"
| "typeId_string softFreeze = ''softFreeze''"
| "typeId_string vacuum = ''vacuum''"
| "typeId_string chilled = ''chilled''"

definition ALL_COMPARTMENT_TYPE_IDS :: "CompartmentTypeId list" where
  "ALL_COMPARTMENT_TYPE_IDS =
     [refrigerator, freezer, vegetable, quickFreeze, variableTemp,
      iceMaker, softFreeze, vacuum, chilled]"

record CompartmentInstance =
  id_c :: string
  typeId :: CompartmentTypeId

datatype FridgeStyle = retro | modern | cute

record FridgeConfig =
  name_cfg :: string
  compartments :: "CompartmentInstance list"
  style_cfg :: FridgeStyle
  color_cfg :: string
  photo :: "string option"

datatype FoodCategory =
  meat | seafood | vegetable_cat | fruit | drink | dairy | leftover | sauce | other

text \<open>
  \<open>Omit<FoodItem, 'id'>\<close> is the record \<open>FoodFields\<close>; \<open>FoodItem\<close> extends it by the
  identifier, as \<^verbatim>\<open>{ ...food, id: generateId() }\<close> does. \<open>quantity\<close> is a JavaScript
  number; the model takes the integers.
\<close>

record FoodFields =
  name_f :: string
  category :: FoodCategory
  quantity :: int
  compartment :: string
  dateAdded :: string
  expiryDate :: string

record FoodItem = FoodFields +
  id_f :: string

text \<open>\<open>Partial<Omit<FoodItem, 'id'>>\<close>: every field may be absent.\<close>

record FoodUpdates =
  name_u :: "string option"
  category_u :: "FoodCategory option"
  quantity_u :: "int option"
  compartment_u :: "string option"
  dateAdded_u :: "string option"
  expiryDate_u :: "string option"





section \<open>Printing numbers\<close>

text \<open>
  \<open>Number.prototype.toString(radix)\<close> on a non-negative integer: the digits
  \<open>0-9a-z\<close>, most significant first, no leading zero. Radix 10 is also what a template
  literal and \<open>JSON.stringify\<close> print for such a number. The host throws for a radix
  outside 2..36; the code passes only the constants 36 and 10, and the model returns
  the empty string there.
\<close>

definition radix_digit :: "nat \<Rightarrow> char" where
  "radix_digit d = ''0123456789abcdefghijklmnopqrstuvwxyz'' ! d"

function toStringRadix :: "nat \<Rightarrow> nat \<Rightarrow> string" where
  "toStringRadix r n =
     (if r < 2 \<or> 36 < r then []
      else if n < r then [radix_digit n]
      else toStringRadix r (n div r) @ [radix_digit (n mod r)])"
  by pat_completeness auto
termination
  by (relation "measure snd") auto

declare toStringRadix.simps [simp del]

section \<open>Helpers on compartments (types/fridge.ts)\<close>

text \<open>
  \<open>COMPARTMENT_TYPES[k]?.name\<close> for an arbitrary string \<open>k\<close>, as \<open>getCompartmentLabel\<close>
  computes it after the cast \<^verbatim>\<open>as CompartmentTypeId\<close>; \<open>None\<close> is \<open>undefined\<close>.
  \<open>COMPARTMENT_TYPES\<close> is an object literal, so a key it does not own is looked up on
  \<open>Object.prototype\<close> (ECMA-262, OrdinaryGet). What is found there is a built-in
  function, whose \<open>name\<close> is the property key, except that \<open>constructor\<close> is the function
  \<open>Object\<close>, and that \<open>__proto__\<close> yields the prototype object, which has no \<open>name\<close>.
  The keys of \<open>Object.prototype\<close> are listed in \<open>Object_prototype_keys\<close> below.
\<close>

definition Object_prototype_keys :: "string list" where
  "Object_prototype_keys =
     [''constructor'', ''hasOwnProperty'', ''isPrototypeOf'', ''propertyIsEnumerable'',
      ''toLocaleString'', ''toString'', ''valueOf'', ''__proto__'',
      ''__defineGetter__'', ''__defineSetter__'', ''__lookupGetter__'', ''__lookupSetter__'']"

definition own_type :: "string \<Rightarrow> CompartmentTypeId option" where
  "own_type k = find (\<lambda>t. typeId_string t = k) ALL_COMPARTMENT_TYPE_IDS"

definition type_name_at :: "string \<Rightarrow> string option" where
  "type_name_at k =
     (case own_type k of
        Some t \<Rightarrow> Some (name_t (COMPARTMENT_TYPES t))
      | None \<Rightarrow>
          if k = ''constructor'' then Some ''Object''
          else if k = ''__proto__'' then None
          else if k \<in> set Object_prototype_keys then Some k
          else None)"

text \<open>
  \<^verbatim>\<open>instanceId.replace(/-\d+$/, '')\<close>: the first position from the left at which a
  hyphen followed by one or more digits \<open>0\<close> to \<open>9\<close> reaches the end of the string; the
  string is cut there. Without such a position the string is returned as it is.
\<close>

definition is_digit :: "char \<Rightarrow> bool" where
  "is_digit c = (c \<in> set ''0123456789'')"

definition matches_here :: "string \<Rightarrow> bool" where
  "matches_here s =
     (case s of [] \<Rightarrow> False | c # ds \<Rightarrow> c = CHR ''-'' \<and> ds \<noteq> [] \<and> list_all is_digit ds)"

fun strip_ordinal :: "string \<Rightarrow> string" where
  "strip_ordinal [] = []"
| "strip_ordinal (c # cs) = (if matches_here (c # cs) then [] else c # strip_ordinal cs)"

text \<open>
  In the first branch \<open>inst.typeId\<close> is of the union type, so \<open>COMPARTMENT_TYPES\<close> has the
  entry and \<^verbatim>\<open>?? instanceId\<close> is not reached.
\<close>

definition getCompartmentLabel :: "string \<Rightarrow> FridgeConfig option \<Rightarrow> string" where
  "getCompartmentLabel instanceId config =
     (case (case config of
              None \<Rightarrow> None
            | Some cfg \<Rightarrow> find (\<lambda>c. id_c c = instanceId) (compartments cfg)) of
        Some inst \<Rightarrow> name_t (COMPARTMENT_TYPES (typeId inst))
      | None \<Rightarrow>
          (case type_name_at (strip_ordinal instanceId) of
             Some n \<Rightarrow> n
           | None \<Rightarrow> instanceId))"

text \<open>
  \<open>createCompartmentInstances\<close>: \<open>counts\<close> is threaded through the \<open>map\<close> callback. Its
  keys are type identifiers, none of which is a key of \<open>Object.prototype\<close>, so an absent
  count reads as \<open>undefined\<close> and \<^verbatim>\<open>counts[typeId] || 0\<close> is 0 then (and a stored count
  is at least 1, hence truthy).
\<close>

fun instances_from :: "(CompartmentTypeId \<rightharpoonup> nat) \<Rightarrow> CompartmentTypeId list
    \<Rightarrow> CompartmentInstance list" where
  "instances_from counts [] = []"
| "instances_from counts (t # ts) =
     (let n = (case counts t of None \<Rightarrow> 0 | Some c \<Rightarrow> if c = 0 then 0 else c) + 1
      in \<lparr>id_c = typeId_string t @ ''-'' @ toStringRadix 10 n, typeId = t\<rparr>
         # instances_from (counts(t \<mapsto> n)) ts)"

definition createCompartmentInstances :: "CompartmentTypeId list \<Rightarrow> CompartmentInstance list" where
  "createCompartmentInstances typeIds = instances_from Map.empty typeIds"

section \<open>The store (store/useFridgeStore.ts)\<close>

datatype SetupStep = welcome_step | template_step | compartments_step | style_step

datatype CameraView = default_view | top_view

record AddFoodModalState =
  open_add :: bool
  compartment_add :: "string option"

record EditFoodModalState =
  open_edit :: bool
  food_edit :: "FoodItem option"

record ContextMenuState =
  open_ctx :: bool
  food_ctx :: "FoodItem option"
  x_ctx :: int
  y_ctx :: int

text \<open>
  \<open>openDoors\<close> is a plain object used as a dictionary: its own properties are a finite
  map from keys to booleans. \<open>null\<close> in \<open>fridgeConfig\<close> and \<open>setupStep\<close> is \<open>None\<close>.
\<close>

record FridgeState =
  fridgeConfig :: "FridgeConfig option"
  setupStep :: "SetupStep option"
  openDoors :: "string \<rightharpoonup> bool"
  fridgeColor :: string
  style :: FridgeStyle
  sidebarOpen :: bool
  cameraView :: CameraView
  foods :: "FoodItem list"
  addFoodModal :: AddFoodModalState
  editFoodModal :: EditFoodModalState
  contextMenu :: ContextMenuState

subsection \<open>Host functions the store calls\<close>

text \<open>\<open>s.slice(a, b)\<close> for \<open>0 \<le> a \<le> b\<close>.\<close>

definition slice :: "nat \<Rightarrow> nat \<Rightarrow> string \<Rightarrow> string" where
  "slice a b s = take (b - a) (drop a s)"

text \<open>
  What \<open>generateId\<close> reads from its environment at one call: \<open>Date.now()\<close>, in
  milliseconds, and the text \<open>Math.random().toString(36)\<close> (\<open>0.\<close> followed by base-36
  digits; how the host prints the fraction is not modelled).
\<close>

record Env =
  now :: nat
  random36 :: string

text \<open>\<^verbatim>\<open>Date.now().toString(36) + Math.random().toString(36).slice(2, 8)\<close>\<close>

definition generateId :: "Env \<Rightarrow> string" where
  "generateId env = toStringRadix 36 (now env) @ slice 2 8 (random36 env)"

text \<open>
  Property access on a plain object (ECMA-262, OrdinaryGet and OrdinarySet): a key the
  object does not own is looked up on \<open>Object.prototype\<close>, whose keys are
  \<open>Object_prototype_keys\<close>; each of them holds a function or, for \<open>__proto__\<close>, returns
  the prototype object, so each is truthy. An assignment \<open>obj[k] = v\<close> creates an own property except
  for \<open>k = '__proto__'\<close>, which calls the inherited setter, and that setter ignores a
  value that is neither an object nor null. A computed key in an object literal always
  defines an own property.
\<close>

definition truthy_at :: "(string \<rightharpoonup> bool) \<Rightarrow> string \<Rightarrow> bool" where
  "truthy_at obj k =
     (case obj k of Some b \<Rightarrow> b | None \<Rightarrow> k \<in> set Object_prototype_keys)"

definition assign_bool :: "(string \<rightharpoonup> bool) \<Rightarrow> string \<Rightarrow> bool \<Rightarrow> (string \<rightharpoonup> bool)" where
  "assign_bool obj k v = (if k = ''__proto__'' then obj else obj(k \<mapsto> v))"

subsection \<open>Initial door map\<close>

text \<open>\<^verbatim>\<open>for (const c of config.compartments) { doors[c.id] = false; }\<close>\<close>

definition buildInitialOpenDoors :: "FridgeConfig option \<Rightarrow> (string \<rightharpoonup> bool)" where
  "buildInitialOpenDoors config =
     (case config of
        None \<Rightarrow> Map.empty
      | Some cfg \<Rightarrow> foldl (\<lambda>doors c. assign_bool doors (id_c c) False) Map.empty (compartments cfg))"

subsection \<open>State updaters: the functions handed to \<open>setState\<close>\<close>

definition toggleDoor :: "string \<Rightarrow> FridgeState \<Rightarrow> FridgeState" where
  "toggleDoor c prev =
     prev\<lparr>openDoors := (openDoors prev)(c \<mapsto> \<not> truthy_at (openDoors prev) c)\<rparr>"

definition setFridgeColor :: "string \<Rightarrow> FridgeState \<Rightarrow> FridgeState" where
  "setFridgeColor color prev = prev\<lparr>fridgeColor := color\<rparr>"

definition setStyle :: "FridgeStyle \<Rightarrow> FridgeState \<Rightarrow> FridgeState" where
  "setStyle s prev = prev\<lparr>style := s\<rparr>"

definition toggleSidebar :: "FridgeState \<Rightarrow> FridgeState" where
  "toggleSidebar prev = prev\<lparr>sidebarOpen := \<not> sidebarOpen prev\<rparr>"

definition setCameraView :: "CameraView \<Rightarrow> FridgeState \<Rightarrow> FridgeState" where
  "setCameraView v prev = prev\<lparr>cameraView := v\<rparr>"

text \<open>\<^verbatim>\<open>const newFood = { ...food, id: generateId() }; foods: [...prev.foods, newFood]\<close>\<close>

definition addFood :: "Env \<Rightarrow> FoodFields \<Rightarrow> FridgeState \<Rightarrow> FridgeState" where
  "addFood env food prev =
     prev\<lparr>foods := foods prev @ [FoodFields.extend food (FoodItem.fields (generateId env))]\<rparr>"

text \<open>\<^verbatim>\<open>{ ...f, ...updates }\<close>: a field present in \<open>updates\<close> replaces the item's.\<close>

definition merge :: "FoodItem \<Rightarrow> FoodUpdates \<Rightarrow> FoodItem" where
  "merge f u =
     f\<lparr>name_f := (case name_u u of Some v \<Rightarrow> v | None \<Rightarrow> name_f f),
       category := (case category_u u of Some v \<Rightarrow> v | None \<Rightarrow> category f),
       quantity := (case quantity_u u of Some v \<Rightarrow> v | None \<Rightarrow> quantity f),
       compartment := (case compartment_u u of Some v \<Rightarrow> v | None \<Rightarrow> compartment f),
       dateAdded := (case dateAdded_u u of Some v \<Rightarrow> v | None \<Rightarrow> dateAdded f),
       expiryDate := (case expiryDate_u u of Some v \<Rightarrow> v | None \<Rightarrow> expiryDate f)\<rparr>"

text \<open>\<^verbatim>\<open>foods: prev.foods.map(f => f.id === id ? { ...f, ...updates } : f)\<close>\<close>

definition updateFood :: "string \<Rightarrow> FoodUpdates \<Rightarrow> FridgeState \<Rightarrow> FridgeState" where
  "updateFood i updates prev =
     prev\<lparr>foods := map (\<lambda>f. if id_f f = i then merge f updates else f) (foods prev)\<rparr>"

definition deleteFood :: "string \<Rightarrow> FridgeState \<Rightarrow> FridgeState" where
  "deleteFood i prev = prev\<lparr>foods := filter (\<lambda>f. id_f f \<noteq> i) (foods prev)\<rparr>"

definition openAddFoodModal :: "string \<Rightarrow> FridgeState \<Rightarrow> FridgeState" where
  "openAddFoodModal c prev =
     prev\<lparr>addFoodModal := \<lparr>open_add = True, compartment_add = Some c\<rparr>\<rparr>"

definition closeAddFoodModal :: "FridgeState \<Rightarrow> FridgeState" where
  "closeAddFoodModal prev =
     prev\<lparr>addFoodModal := \<lparr>open_add = False, compartment_add = None\<rparr>\<rparr>"

definition openEditFoodModal :: "FoodItem \<Rightarrow> FridgeState \<Rightarrow> FridgeState" where
  "openEditFoodModal food prev =
     prev\<lparr>editFoodModal := \<lparr>open_edit = True, food_edit = Some food\<rparr>,
          contextMenu := \<lparr>open_ctx = False, food_ctx = None, x_ctx = 0, y_ctx = 0\<rparr>\<rparr>"

definition closeEditFoodModal :: "FridgeState \<Rightarrow> FridgeState" where
  "closeEditFoodModal prev =
     prev\<lparr>editFoodModal := \<lparr>open_edit = False, food_edit = None\<rparr>\<rparr>"

definition openContextMenu :: "FoodItem \<Rightarrow> int \<Rightarrow> int \<Rightarrow> FridgeState \<Rightarrow> FridgeState" where
  "openContextMenu food x y prev =
     prev\<lparr>contextMenu := \<lparr>open_ctx = True, food_ctx = Some food, x_ctx = x, y_ctx = y\<rparr>\<rparr>"

definition closeContextMenu :: "FridgeState \<Rightarrow> FridgeState" where
  "closeContextMenu prev =
     prev\<lparr>contextMenu := \<lparr>open_ctx = False, food_ctx = None, x_ctx = 0, y_ctx = 0\<rparr>\<rparr>"

definition setSetupStep :: "SetupStep option \<Rightarrow> FridgeState \<Rightarrow> FridgeState" where
  "setSetupStep step prev = prev\<lparr>setupStep := step\<rparr>"

text \<open>The state part of \<open>finishSetup\<close>; its write to storage is in \<open>run\<close> below.\<close>

definition finishSetup :: "FridgeConfig \<Rightarrow> FridgeState \<Rightarrow> FridgeState" where
  "finishSetup config prev =
     prev\<lparr>fridgeConfig := Some config,
          setupStep := None,
          fridgeColor := color_cfg config,
          style := style_cfg config,
          openDoors := buildInitialOpenDoors (Some config)\<rparr>"

definition enterSettings :: "FridgeState \<Rightarrow> FridgeState" where
  "enterSettings prev = prev\<lparr>setupStep := Some welcome_step\<rparr>"

text \<open>The state \<open>resetFridge\<close> installs; it does not read the previous one.\<close>

definition resetFridge :: "FridgeState \<Rightarrow> FridgeState" where
  "resetFridge prev =
     \<lparr>fridgeConfig = None,
      setupStep = Some welcome_step,
      openDoors = Map.empty,
      fridgeColor = ''#e8e8e8'',
      style = modern,
      sidebarOpen = False,
      cameraView = default_view,
      foods = [],
      addFoodModal = \<lparr>open_add = False, compartment_add = None\<rparr>,
      editFoodModal = \<lparr>open_edit = False, food_edit = None\<rparr>,
      contextMenu = \<lparr>open_ctx = False, food_ctx = None, x_ctx = 0, y_ctx = 0\<rparr>\<rparr>"

subsection \<open>Persistence: \<open>localStorage\<close> and \<open>JSON.stringify\<close>\<close>

text \<open>
  \<open>localStorage\<close> is a finite map from keys to texts. \<open>JSON.stringify\<close> is written out
  for the two shapes the store saves. Keys are printed in the order in which the objects
  get them: a food item is built by the add form as \<open>{name, category, quantity,
  compartment, dateAdded, expiryDate}\<close> and extended by \<open>id\<close>; a configuration is built by
  the wizard as \<open>{name, compartments, style, color, photo}\<close>, where an undefined \<open>photo\<close>
  is left out. Strings are quoted as \<open>QuoteJSONString\<close> (ECMA-262) quotes them.
\<close>

definition hex_digit :: "nat \<Rightarrow> char" where
  "hex_digit d = ''0123456789abcdef'' ! d"

definition quote_char :: "char \<Rightarrow> string" where
  "quote_char c =
     (if c = CHR 0x22 then [CHR 0x5C, CHR 0x22]
      else if c = CHR 0x5C then [CHR 0x5C, CHR 0x5C]
      else if c = CHR 0x08 then [CHR 0x5C, CHR ''b'']
      else if c = CHR 0x09 then [CHR 0x5C, CHR ''t'']
      else if c = CHR 0x0A then [CHR 0x5C, CHR ''n'']
      else if c = CHR 0x0C then [CHR 0x5C, CHR ''f'']
      else if c = CHR 0x0D then [CHR 0x5C, CHR ''r'']
      else if (of_char c :: nat) < 32
        then [CHR 0x5C, CHR ''u'', CHR ''0'', CHR ''0'',
              hex_digit (of_char c div 16), hex_digit (of_char c mod 16)]
      else [c])"

definition QuoteJSONString :: "string \<Rightarrow> string" where
  "QuoteJSONString s = [CHR 0x22] @ concat (map quote_char s) @ [CHR 0x22]"

definition show_int :: "int \<Rightarrow> string" where
  "show_int i =
     (if i < 0 then CHR ''-'' # toStringRadix 10 (nat (- i)) else toStringRadix 10 (nat i))"

fun join :: "string \<Rightarrow> string list \<Rightarrow> string" where
  "join sep [] = []"
| "join sep [x] = x"
| "join sep (x # y # ys) = x @ sep @ join sep (y # ys)"

definition member_json :: "string \<Rightarrow> string \<Rightarrow> string" where
  "member_json k v = QuoteJSONString k @ '':'' @ v"

definition object_json :: "string list \<Rightarrow> string" where
  "object_json ms = ''{'' @ join '','' ms @ ''}''"

definition array_json :: "string list \<Rightarrow> string" where
  "array_json vs = ''['' @ join '','' vs @ '']''"

fun category_string :: "FoodCategory \<Rightarrow> string" where
  "category_string meat = ''meat''"
| "category_string seafood = ''seafood''"
| "category_string vegetable_cat = ''vegetable''"
| "category_string fruit = ''fruit''"
| "category_string drink = ''drink''"
| "category_string dairy = ''dairy''"
| "category_string leftover = ''leftover''"
| "category_string sauce = ''sauce''"
| "category_string other = ''other''"

fun style_string :: "FridgeStyle \<Rightarrow> string" where
  "style_string retro = ''retro''"
| "style_string modern = ''modern''"
| "style_string cute = ''cute''"

definition stringify_FoodItem :: "FoodItem \<Rightarrow> string" where
  "stringify_FoodItem f =
     object_json
       [member_json ''name'' (QuoteJSONString (name_f f)),
        member_json ''category'' (QuoteJSONString (category_string (category f))),
        member_json ''quantity'' (show_int (quantity f)),
        member_json ''compartment'' (QuoteJSONString (compartment f)),
        member_json ''dateAdded'' (QuoteJSONString (dateAdded f)),
        member_json ''expiryDate'' (QuoteJSONString (expiryDate f)),
        member_json ''id'' (QuoteJSONString (id_f f))]"

definition stringify_foods :: "FoodItem list \<Rightarrow> string" where
  "stringify_foods fs = array_json (map stringify_FoodItem fs)"

definition stringify_CompartmentInstance :: "CompartmentInstance \<Rightarrow> string" where
  "stringify_CompartmentInstance c =
     object_json
       [member_json ''id'' (QuoteJSONString (id_c c)),
        member_json ''typeId'' (QuoteJSONString (typeId_string (typeId c)))]"

definition stringify_FridgeConfig :: "FridgeConfig \<Rightarrow> string" where
  "stringify_FridgeConfig cfg =
     object_json
       ([member_json ''name'' (QuoteJSONString (name_cfg cfg)),
         member_json ''compartments''
           (array_json (map stringify_CompartmentInstance (compartments cfg))),
         member_json ''style'' (QuoteJSONString (style_string (style_cfg cfg))),
         member_json ''color'' (QuoteJSONString (color_cfg cfg))]
        @ (case photo cfg of
             None \<Rightarrow> []
           | Some p \<Rightarrow> [member_json ''photo'' (QuoteJSONString p)]))"

type_synonym Storage = "string \<rightharpoonup> string"

definition FOODS_STORAGE_KEY :: string where
  "FOODS_STORAGE_KEY = ''fridge-app-foods''"

definition FRIDGE_CONFIG_KEY :: string where
  "FRIDGE_CONFIG_KEY = ''fridgeConfig''"

definition setItem :: "string \<Rightarrow> string \<Rightarrow> Storage \<Rightarrow> Storage" where
  "setItem k v ls = ls(k \<mapsto> v)"

definition removeItem :: "string \<Rightarrow> Storage \<Rightarrow> Storage" where
  "removeItem k ls = ls(k := None)"

definition saveFoods :: "FoodItem list \<Rightarrow> Storage \<Rightarrow> Storage" where
  "saveFoods fs ls = setItem FOODS_STORAGE_KEY (stringify_foods fs) ls"

definition saveFridgeConfig :: "FridgeConfig \<Rightarrow> Storage \<Rightarrow> Storage" where
  "saveFridgeConfig cfg ls = setItem FRIDGE_CONFIG_KEY (stringify_FridgeConfig cfg) ls"

definition clearFridgeConfig :: "Storage \<Rightarrow> Storage" where
  "clearFridgeConfig ls = removeItem FRIDGE_CONFIG_KEY ls"

subsection \<open>The hook: callbacks, and the effect that persists the inventory\<close>

text \<open>
  The store is the hook's state together with \<open>localStorage\<close>. An action is one call of
  a callback of \<open>FridgeActions\<close>. \<open>callback\<close> is what the callback does by itself: its
  direct calls on \<open>localStorage\<close> (\<open>finishSetup\<close>, \<open>resetFridge\<close>), then \<open>setState\<close>.
\<close>

record Store =
  state :: FridgeState
  localStorage :: Storage

datatype Action =
  ToggleDoor string
  | SetFridgeColor string
  | SetStyle FridgeStyle
  | ToggleSidebar
  | SetCameraView CameraView
  | AddFood FoodFields
  | UpdateFood string FoodUpdates
  | DeleteFood string
  | OpenAddFoodModal string
  | CloseAddFoodModal
  | OpenEditFoodModal FoodItem
  | CloseEditFoodModal
  | OpenContextMenu FoodItem int int
  | CloseContextMenu
  | SetSetupStep "SetupStep option"
  | FinishSetup FridgeConfig
  | EnterSettings
  | ResetFridge

definition setState :: "(FridgeState \<Rightarrow> FridgeState) \<Rightarrow> Store \<Rightarrow> Store" where
  "setState f s = s\<lparr>state := f (state s)\<rparr>"

fun callback :: "Env \<Rightarrow> Action \<Rightarrow> Store \<Rightarrow> Store" where
  "callback env (ToggleDoor c) s = setState (toggleDoor c) s"
| "callback env (SetFridgeColor c) s = setState (setFridgeColor c) s"
| "callback env (SetStyle st) s = setState (setStyle st) s"
| "callback env ToggleSidebar s = setState toggleSidebar s"
| "callback env (SetCameraView v) s = setState (setCameraView v) s"
| "callback env (AddFood food) s = setState (addFood env food) s"
| "callback env (UpdateFood i u) s = setState (updateFood i u) s"
| "callback env (DeleteFood i) s = setState (deleteFood i) s"
| "callback env (OpenAddFoodModal c) s = setState (openAddFoodModal c) s"
| "callback env CloseAddFoodModal s = setState closeAddFoodModal s"
| "callback env (OpenEditFoodModal f) s = setState (openEditFoodModal f) s"
| "callback env CloseEditFoodModal s = setState closeEditFoodModal s"
| "callback env (OpenContextMenu f x y) s = setState (openContextMenu f x y) s"
| "callback env CloseContextMenu s = setState closeContextMenu s"
| "callback env (SetSetupStep step) s = setState (setSetupStep step) s"
| "callback env (FinishSetup cfg) s =
     setState (finishSetup cfg) (s\<lparr>localStorage := saveFridgeConfig cfg (localStorage s)\<rparr>)"
| "callback env EnterSettings s = setState enterSettings s"
| "callback env ResetFridge s =
     setState resetFridge
       (s\<lparr>localStorage :=
            removeItem ''fridgeConfig'' (removeItem FOODS_STORAGE_KEY (localStorage s))\<rparr>)"

text \<open>
  \<^verbatim>\<open>useEffect(() => { saveFoods(state.foods); }, [state.foods]);\<close>
  React runs the effect after every render in which \<open>state.foods\<close> is another array
  object than in the render before. \<open>addFood\<close> (a spread), \<open>updateFood\<close> (\<open>map\<close>),
  \<open>deleteFood\<close> (\<open>filter\<close>) and \<open>resetFridge\<close> (the literal \<open>[]\<close>) put a newly allocated
  array there, whatever its content; every other updater copies the reference through
  \<open>...prev\<close>. \<open>dispatch\<close> is an action together with the render that follows it.
\<close>

fun allocatesFoods :: "Action \<Rightarrow> bool" where
  "allocatesFoods (AddFood food) = True"
| "allocatesFoods (UpdateFood i u) = True"
| "allocatesFoods (DeleteFood i) = True"
| "allocatesFoods ResetFridge = True"
| "allocatesFoods a = False"

definition persistFoods :: "Store \<Rightarrow> Store" where
  "persistFoods s = s\<lparr>localStorage := saveFoods (foods (state s)) (localStorage s)\<rparr>"

definition dispatch :: "Env \<Rightarrow> Action \<Rightarrow> Store \<Rightarrow> Store" where
  "dispatch env a s =
     (if allocatesFoods a then persistFoods (callback env a s) else callback env a s)"


text \<open>
  A sequence of \<open>addFood\<close> calls, each with what its \<open>generateId\<close> reads from the
  environment and the item it is given.
\<close>

fun addFoods :: "(Env \<times> FoodFields) list \<Rightarrow> FridgeState \<Rightarrow> FridgeState" where
  "addFoods [] s = s"
| "addFoods ((env, food) # calls) s = addFoods calls (addFood env food s)"


section \<open>Loading from \<open>localStorage\<close>\<close>

text \<open>
  A JSON value. A number is kept as the decimal it is written as, \<open>JNum m e\<close> for
  \<open>m \<times> 10^e\<close>; its rounding to a double is not modelled. An object is the list of its
  members as written.
\<close>

datatype json =
  JNull | JBool bool | JNum int int | JStr string | JArr "json list" | JObj "(string \<times> json) list"

text \<open>The exceptions the modelled code can meet.\<close>

datatype exn = SecurityError | SyntaxError | RangeError

text \<open>
  \<open>JSON.parse\<close> for the JSON grammar of ECMA-404, which is what ECMA-262 prescribes:
  the whole text must be one value between optional white space, otherwise
  \<open>SyntaxError\<close> is thrown. A \<open>\u\<close> escape is decoded to the UTF-8 bytes of its code
  unit. The mutually recursive part counts down a fuel; every call that uses fuel has
  consumed a character, so twice the length of the text is enough.
\<close>

definition is_ws :: "char \<Rightarrow> bool" where
  "is_ws c = (c = CHR 0x20 \<or> c = CHR 0x09 \<or> c = CHR 0x0A \<or> c = CHR 0x0D)"

definition skip_ws :: "string \<Rightarrow> string" where
  "skip_ws s = dropWhile is_ws s"

definition digits_value :: "string \<Rightarrow> nat" where
  "digits_value ds = foldl (\<lambda>a c. 10 * a + (of_char c - 48)) 0 ds"

definition parse_exponent :: "string \<Rightarrow> (int \<times> string) option" where
  "parse_exponent s =
     (case s of
        [] \<Rightarrow> Some (0, s)
      | c # r \<Rightarrow>
          if c = CHR ''e'' \<or> c = CHR ''E'' then
            (let (neg, r1) =
                   (case r of
                      [] \<Rightarrow> (False, r)
                    | d # r' \<Rightarrow> if d = CHR ''-'' then (True, r')
                               else if d = CHR ''+'' then (False, r') else (False, r));
                 ds = takeWhile is_digit r1
             in if ds = [] then None
                else Some ((if neg then - 1 else 1) * int (digits_value ds),
                           dropWhile is_digit r1))
          else Some (0, s))"

definition parse_fraction :: "string \<Rightarrow> (string \<times> string) option" where
  "parse_fraction s =
     (case s of
        [] \<Rightarrow> Some ([], s)
      | c # r \<Rightarrow>
          if c = CHR ''.'' then
            (if takeWhile is_digit r = [] then None
             else Some (takeWhile is_digit r, dropWhile is_digit r))
          else Some ([], s))"

definition parse_number :: "string \<Rightarrow> (json \<times> string) option" where
  "parse_number s =
     (let (neg, s1) =
            (case s of [] \<Rightarrow> (False, s)
             | c # r \<Rightarrow> if c = CHR ''-'' then (True, r) else (False, s));
          ip = takeWhile is_digit s1
      in if ip = [] \<or> (1 < length ip \<and> hd ip = CHR ''0'') then None
         else
           (case parse_fraction (dropWhile is_digit s1) of
              None \<Rightarrow> None
            | Some (fp, s3) \<Rightarrow>
                (case parse_exponent s3 of
                   None \<Rightarrow> None
                 | Some (e, s4) \<Rightarrow>
                     Some (JNum ((if neg then - 1 else 1) * int (digits_value (ip @ fp)))
                                (e - int (length fp)), s4))))"

definition hex_value :: "char \<Rightarrow> nat option" where
  "hex_value c =
     (if c \<in> set ''0123456789'' then Some (of_char c - 48)
      else if c \<in> set ''abcdef'' then Some (of_char c - 87)
      else if c \<in> set ''ABCDEF'' then Some (of_char c - 55)
      else None)"

definition utf8 :: "nat \<Rightarrow> string" where
  "utf8 u =
     (if u < 128 then [char_of u]
      else if u < 2048 then [char_of (192 + u div 64), char_of (128 + u mod 64)]
      else [char_of (224 + u div 4096), char_of (128 + (u div 64) mod 64),
            char_of (128 + u mod 64)])"

definition escape_char :: "char \<Rightarrow> char option" where
  "escape_char e =
     (if e = CHR 0x22 then Some (CHR 0x22)
      else if e = CHR 0x5C then Some (CHR 0x5C)
      else if e = CHR ''/'' then Some (CHR ''/'')
      else if e = CHR ''b'' then Some (CHR 0x08)
      else if e = CHR ''f'' then Some (CHR 0x0C)
      else if e = CHR ''n'' then Some (CHR 0x0A)
      else if e = CHR ''r'' then Some (CHR 0x0D)
      else if e = CHR ''t'' then Some (CHR 0x09)
      else None)"

fun parse_chars :: "string \<Rightarrow> (string \<times> string) option" where
  "parse_chars s =
     (case s of
        [] \<Rightarrow> None
      | c # r \<Rightarrow>
          if c = CHR 0x22 then Some ([], r)
          else if c = CHR 0x5C then
            (case r of
               [] \<Rightarrow> None
             | e # r1 \<Rightarrow>
                 if e = CHR ''u'' then
                   (case r1 of
                      a # b # c' # d # r2 \<Rightarrow>
                        (case (hex_value a, hex_value b, hex_value c', hex_value d) of
                           (Some h3, Some h2, Some h1, Some h0) \<Rightarrow>
                             (case parse_chars r2 of
                                None \<Rightarrow> None
                              | Some (x, t) \<Rightarrow>
                                  Some (utf8 (4096 * h3 + 256 * h2 + 16 * h1 + h0) @ x, t))
                         | _ \<Rightarrow> None)
                    | _ \<Rightarrow> None)
                 else
                   (case escape_char e of
                      None \<Rightarrow> None
                    | Some x1 \<Rightarrow>
                        (case parse_chars r1 of
                           None \<Rightarrow> None
                         | Some (x, t) \<Rightarrow> Some (x1 # x, t))))
          else if (of_char c :: nat) < 32 then None
          else (case parse_chars r of None \<Rightarrow> None | Some (x, t) \<Rightarrow> Some (c # x, t)))"

declare parse_chars.simps [simp del]

fun parse_value :: "nat \<Rightarrow> string \<Rightarrow> (json \<times> string) option"
  and parse_elements :: "nat \<Rightarrow> string \<Rightarrow> (json list \<times> string) option"
  and parse_members :: "nat \<Rightarrow> string \<Rightarrow> ((string \<times> json) list \<times> string) option"
where
  "parse_value fuel s =
     (if fuel = 0 then None else case s of
        [] \<Rightarrow> None
      | c # r \<Rightarrow>
          if c = CHR ''{'' then
            (case skip_ws r of
               [] \<Rightarrow> None
             | c2 # r2 \<Rightarrow>
                 if c2 = CHR ''}'' then Some (JObj [], r2)
                 else (case parse_members (fuel - 1) (skip_ws r) of
                         None \<Rightarrow> None
                       | Some (ms, t) \<Rightarrow> Some (JObj ms, t)))
          else if c = CHR ''['' then
            (case skip_ws r of
               [] \<Rightarrow> None
             | c2 # r2 \<Rightarrow>
                 if c2 = CHR '']'' then Some (JArr [], r2)
                 else (case parse_elements (fuel - 1) (skip_ws r) of
                         None \<Rightarrow> None
                       | Some (vs, t) \<Rightarrow> Some (JArr vs, t)))
          else if c = CHR 0x22 then
            (case parse_chars r of None \<Rightarrow> None | Some (x, t) \<Rightarrow> Some (JStr x, t))
          else if take 4 s = ''true'' then Some (JBool True, drop 4 s)
          else if take 5 s = ''false'' then Some (JBool False, drop 5 s)
          else if take 4 s = ''null'' then Some (JNull, drop 4 s)
          else parse_number s)"
| "parse_elements fuel s =
     (if fuel = 0 then None else case parse_value (fuel - 1) s of
        None \<Rightarrow> None
      | Some (v, t) \<Rightarrow>
          (case skip_ws t of
             [] \<Rightarrow> None
           | c # r \<Rightarrow>
               if c = CHR '','' then
                 (case parse_elements (fuel - 1) (skip_ws r) of
                    None \<Rightarrow> None
                  | Some (vs, u) \<Rightarrow> Some (v # vs, u))
               else if c = CHR '']'' then Some ([v], r)
               else None))"
| "parse_members fuel s =
     (if fuel = 0 then None else case s of
        [] \<Rightarrow> None
      | q # r \<Rightarrow>
          if q \<noteq> CHR 0x22 then None
          else
            (case parse_chars r of
               None \<Rightarrow> None
             | Some (k, t) \<Rightarrow>
                 (case skip_ws t of
                    [] \<Rightarrow> None
                  | c # r1 \<Rightarrow>
                      if c \<noteq> CHR '':'' then None
                      else
                        (case parse_value (fuel - 1) (skip_ws r1) of
                           None \<Rightarrow> None
                         | Some (v, u) \<Rightarrow>
                             (case skip_ws u of
                                [] \<Rightarrow> None
                              | c2 # r2 \<Rightarrow>
                                  if c2 = CHR '','' then
                                    (case parse_members (fuel - 1) (skip_ws r2) of
                                       None \<Rightarrow> None
                                     | Some (ms, w) \<Rightarrow> Some ((k, v) # ms, w))
                                  else if c2 = CHR ''}'' then Some ([(k, v)], r2)
                                  else None)))))"

declare parse_value.simps [simp del] parse_elements.simps [simp del] parse_members.simps [simp del]

definition JSON_parse :: "string \<Rightarrow> exn + json" where
  "JSON_parse s =
     (case parse_value (2 * length s + 2) (skip_ws s) of
        None \<Rightarrow> Inl SyntaxError
      | Some (v, t) \<Rightarrow> if skip_ws t = [] then Inr v else Inl SyntaxError)"

definition is_array :: "json \<Rightarrow> bool" where
  "is_array v = (case v of JArr vs \<Rightarrow> True | _ \<Rightarrow> False)"

text \<open>
  Reading \<open>localStorage\<close>. A browser may refuse access to the storage altogether, and
  then the read throws; that is \<open>None\<close> here.
\<close>

definition getItem :: "Storage option \<Rightarrow> string \<Rightarrow> exn + string option" where
  "getItem ls k = (case ls of None \<Rightarrow> Inl SecurityError | Some m \<Rightarrow> Inr (m k))"

text \<open>
  The loaders take the parser as a parameter, so that what is proved of them does not
  rest on the model of \<open>JSON.parse\<close> above. The \<open>try\<close> block is a function of its own:
  \<open>Inr (Some v)\<close> is \<open>return v\<close>, \<open>Inr None\<close> is reaching the end of the block, \<open>Inl e\<close> is
  an exception. \<^verbatim>\<open>if (raw)\<close> holds for a string that is not empty. The cast
  \<^verbatim>\<open>as FoodItem[]\<close> (\<^verbatim>\<open>as FridgeConfig\<close>) does nothing at run time.
\<close>

definition load_try :: "(string \<Rightarrow> exn + json) \<Rightarrow> Storage option \<Rightarrow> string
    \<Rightarrow> exn + json option" where
  "load_try parse ls key =
     (case getItem ls key of
        Inl e \<Rightarrow> Inl e
      | Inr raw \<Rightarrow>
          (case raw of
             None \<Rightarrow> Inr None
           | Some r \<Rightarrow>
               if r = [] then Inr None
               else (case parse r of Inl e \<Rightarrow> Inl e | Inr v \<Rightarrow> Inr (Some v))))"

definition loadFoods :: "(string \<Rightarrow> exn + json) \<Rightarrow> Storage option \<Rightarrow> exn + json" where
  "loadFoods parse ls =
     (case load_try parse ls FOODS_STORAGE_KEY of
        Inr (Some v) \<Rightarrow> Inr v
      | Inr None \<Rightarrow> Inr (JArr [])
      | Inl e \<Rightarrow> Inr (JArr []))"

definition loadFridgeConfig :: "(string \<Rightarrow> exn + json) \<Rightarrow> Storage option \<Rightarrow> exn + json" where
  "loadFridgeConfig parse ls =
     (case load_try parse ls FRIDGE_CONFIG_KEY of
        Inr (Some v) \<Rightarrow> Inr v
      | Inr None \<Rightarrow> Inr JNull
      | Inl e \<Rightarrow> Inr JNull)"

section \<open>Default expiry dates (\<open>getDefaultExpiryDate\<close>)\<close>


































section \<open>Sample values\<close>

definition example_config :: FridgeConfig where
  "example_config =
     \<lparr>name_cfg = ''Kitchen'',
      compartments = [\<lparr>id_c = ''refrigerator-1'', typeId = refrigerator\<rparr>,
                      \<lparr>id_c = ''freezer-1'', typeId = freezer\<rparr>],
      style_cfg = cute, color_cfg = ''#ffcccc'', photo = None\<rparr>"

definition example_beef :: FoodItem where
  "example_beef =
     \<lparr>name_f = ''Beef'', category = meat, quantity = 2, compartment = ''freezer-1'',
      dateAdded = ''2024-01-01T00:00:00.000Z'', expiryDate = ''2024-01-04T00:00:00.000Z'',
      id_f = ''lqu5m2o04fzyo8''\<rparr>"

definition example_milk :: FoodItem where
  "example_milk =
     \<lparr>name_f = ''Milk'', category = dairy, quantity = 1, compartment = ''refrigerator-1'',
      dateAdded = ''2024-01-02T00:00:00.000Z'', expiryDate = ''2024-01-09T00:00:00.000Z'',
      id_f = ''lqvl1ya0k3x9pq''\<rparr>"

definition example_state :: FridgeState where
  "example_state =
     \<lparr>fridgeConfig = Some example_config,
      setupStep = None,
      openDoors = [''refrigerator-1'' \<mapsto> False, ''freezer-1'' \<mapsto> True],
      fridgeColor = ''#ffcccc'',
      style = cute,
      sidebarOpen = True,
      cameraView = top_view,
      foods = [example_beef, example_milk],
      addFoodModal = \<lparr>open_add = True, compartment_add = Some ''freezer-1''\<rparr>,
      editFoodModal = \<lparr>open_edit = False, food_edit = None\<rparr>,
      contextMenu = \<lparr>open_ctx = True, food_ctx = Some example_milk, x_ctx = 120, y_ctx = 48\<rparr>\<rparr>"

definition example_store :: Store where
  "example_store =
     \<lparr>state = example_state,
      localStorage = [''fridgeConfig'' \<mapsto> stringify_FridgeConfig example_config,
                      ''fridge-app-foods'' \<mapsto> stringify_foods [example_beef, example_milk]]\<rparr>"

definition example_env :: Env where
  "example_env = \<lparr>now = 1704067200000, random36 = ''0.4fzyo82mvyr''\<rparr>"

definition no_updates :: FoodUpdates where
  "no_updates =
     \<lparr>name_u = None, category_u = None, quantity_u = None, compartment_u = None,
      dateAdded_u = None, expiryDate_u = None\<rparr>"


definition example_ice :: FoodFields where
  "example_ice =
     \<lparr>name_f = ''Ice'', category = other, quantity = 1, compartment = ''freezer-1'',
      dateAdded = ''2024-01-01T00:00:00.000Z'', expiryDate = ''2024-01-08T00:00:00.000Z''\<rparr>"





definition example_corrupt_storage :: Storage where
  "example_corrupt_storage = [''fridgeConfig'' \<mapsto> ''[1, 2]'', ''fridge-app-foods'' \<mapsto> ''{broken'']"

definition example_misshapen_storage :: Storage where
  "example_misshapen_storage = [''fridgeConfig'' \<mapsto> ''5'', ''fridge-app-foods'' \<mapsto> ''{}'']"






section \<open>Properties of the store\<close>

subsection \<open>Entering the settings\<close>

text \<open>
  C10. \<open>enterSettings\<close> sets the setup step to \<open>welcome\<close> and changes nothing else: the
  configuration, the inventory, the door map, colour, style, sidebar flag, camera view
  and the three overlay states are what they were, and \<open>localStorage\<close> is not written.
\<close>

theorem enterSettings_changes_only_setupStep:
  "setupStep (state (dispatch env EnterSettings s)) = Some welcome_step
   \<and> fridgeConfig (state (dispatch env EnterSettings s)) = fridgeConfig (state s)
   \<and> foods (state (dispatch env EnterSettings s)) = foods (state s)
   \<and> openDoors (state (dispatch env EnterSettings s)) = openDoors (state s)
   \<and> fridgeColor (state (dispatch env EnterSettings s)) = fridgeColor (state s)
   \<and> style (state (dispatch env EnterSettings s)) = style (state s)
   \<and> sidebarOpen (state (dispatch env EnterSettings s)) = sidebarOpen (state s)
   \<and> cameraView (state (dispatch env EnterSettings s)) = cameraView (state s)
   \<and> addFoodModal (state (dispatch env EnterSettings s)) = addFoodModal (state s)
   \<and> editFoodModal (state (dispatch env EnterSettings s)) = editFoodModal (state s)
   \<and> contextMenu (state (dispatch env EnterSettings s)) = contextMenu (state s)
   \<and> localStorage (dispatch env EnterSettings s) = localStorage s"
  by (simp add: dispatch_def setState_def enterSettings_def)

subsection \<open>Resetting the fridge\<close>

text \<open>
  The state after \<open>resetFridge\<close> is the fixed default state, whatever the state before.
\<close>

lemma resetFridge_state:
  "state (dispatch env ResetFridge s) =
     \<lparr>fridgeConfig = None, setupStep = Some welcome_step, openDoors = Map.empty,
      fridgeColor = ''#e8e8e8'', style = modern, sidebarOpen = False,
      cameraView = default_view, foods = [],
      addFoodModal = \<lparr>open_add = False, compartment_add = None\<rparr>,
      editFoodModal = \<lparr>open_edit = False, food_edit = None\<rparr>,
      contextMenu = \<lparr>open_ctx = False, food_ctx = None, x_ctx = 0, y_ctx = 0\<rparr>\<rparr>"
  by (simp add: dispatch_def setState_def resetFridge_def persistFoods_def)

text \<open>The callback by itself removes both records.\<close>

lemma resetFridge_callback_removes_both:
  "localStorage (callback env ResetFridge s) ''fridgeConfig'' = None
   \<and> localStorage (callback env ResetFridge s) ''fridge-app-foods'' = None"
  by (simp add: setState_def removeItem_def FOODS_STORAGE_KEY_def)

text \<open>
  The empty array that \<open>resetFridge\<close> installs is a new value of \<open>state.foods\<close>, so the
  persisting effect runs in the render that follows and writes the inventory record
  again, as the text \<open>[]\<close>.
\<close>

lemma resetFridge_storage:
  "localStorage (dispatch env ResetFridge s) =
     (localStorage s)(''fridgeConfig'' := None, ''fridge-app-foods'' \<mapsto> ''[]'')"
  by (simp add: dispatch_def setState_def resetFridge_def persistFoods_def saveFoods_def
      setItem_def removeItem_def FOODS_STORAGE_KEY_def stringify_foods_def array_json_def)

text \<open>
  C3. From the sample store (a configured fridge holding two items, both records
  persisted), \<open>resetFridge\<close> leads to: no configuration, empty inventory, setup step
  \<open>welcome\<close>, an empty door map, sidebar closed, no overlay open, default camera view,
  colour \<open>#e8e8e8\<close>, style \<open>modern\<close>, and no configuration record. The inventory record
  is not absent afterwards: it holds the text \<open>[]\<close>.
\<close>

theorem resetFridge_leaves_inventory_record:
  "fridgeConfig (state (dispatch example_env ResetFridge example_store)) = None
   \<and> foods (state (dispatch example_env ResetFridge example_store)) = []
   \<and> setupStep (state (dispatch example_env ResetFridge example_store)) = Some welcome_step
   \<and> openDoors (state (dispatch example_env ResetFridge example_store)) = Map.empty
   \<and> sidebarOpen (state (dispatch example_env ResetFridge example_store)) = False
   \<and> open_add (addFoodModal (state (dispatch example_env ResetFridge example_store))) = False
   \<and> open_edit (editFoodModal (state (dispatch example_env ResetFridge example_store))) = False
   \<and> open_ctx (contextMenu (state (dispatch example_env ResetFridge example_store))) = False
   \<and> cameraView (state (dispatch example_env ResetFridge example_store)) = default_view
   \<and> fridgeColor (state (dispatch example_env ResetFridge example_store)) = ''#e8e8e8''
   \<and> style (state (dispatch example_env ResetFridge example_store)) = modern
   \<and> localStorage (dispatch example_env ResetFridge example_store) ''fridgeConfig'' = None
   \<and> localStorage (dispatch example_env ResetFridge example_store) ''fridge-app-foods''
       = Some ''[]''"
  by (simp add: resetFridge_state resetFridge_storage)

subsection \<open>Updating and adding food\<close>






text \<open>
  C1, as the code has it. The store keeps a quantity as it is given: after
  \<open>updateFood(id, {quantity: q})\<close> every item with that identifier has quantity \<open>q\<close>,
  whatever \<open>q\<close> is, and every other item is an item of the inventory before; \<open>addFood\<close>
  appends the item with the quantity it was given and leaves the items before it alone.
\<close>

theorem store_keeps_quantity_as_given:
  "(\<forall>f \<in> set (foods (updateFood i (u\<lparr>quantity_u := Some q\<rparr>) s)).
       (id_f f = i \<longrightarrow> quantity f = q) \<and> (id_f f \<noteq> i \<longrightarrow> f \<in> set (foods s)))
   \<and> quantity (last (foods (addFood env food s))) = quantity food
   \<and> butlast (foods (addFood env food s)) = foods s"
  by (auto simp: updateFood_def merge_def addFood_def FoodFields.defs FoodItem.defs)

text \<open>In the sample state: the quantities \<open>-3\<close> and \<open>0\<close> are stored as given.\<close>

theorem store_keeps_quantity_as_given_witness:
  "quantity (hd (foods (updateFood ''lqu5m2o04fzyo8'' (no_updates\<lparr>quantity_u := Some (- 3)\<rparr>)
       example_state))) = - 3
   \<and> quantity (last (foods (addFood example_env
        \<lparr>name_f = ''Ice'', category = other, quantity = 0, compartment = ''freezer-1'',
         dateAdded = ''2024-01-01T00:00:00.000Z'', expiryDate = ''2024-01-08T00:00:00.000Z''\<rparr>
        example_state))) = 0"
proof -
  let ?s' = "updateFood ''lqu5m2o04fzyo8'' (no_updates\<lparr>quantity_u := Some (- 3)\<rparr>) example_state"
  have mem: "hd (foods ?s') \<in> set (foods ?s')"
    by (simp add: updateFood_def example_state_def)
  have idh: "id_f (hd (foods ?s')) = ''lqu5m2o04fzyo8''"
    by (simp add: updateFood_def example_state_def example_beef_def merge_def)
  from store_keeps_quantity_as_given
         [where i = "''lqu5m2o04fzyo8''" and u = no_updates and q = "- 3" and s = example_state]
    mem idh
  have "quantity (hd (foods ?s')) = - 3" by blast
  moreover from store_keeps_quantity_as_given
      [where env = example_env and food =
        "\<lparr>name_f = ''Ice'', category = other, quantity = 0, compartment = ''freezer-1'',
          dateAdded = ''2024-01-01T00:00:00.000Z'', expiryDate = ''2024-01-08T00:00:00.000Z''\<rparr>"
        and s = example_state]
  have "quantity (last (foods (addFood example_env
        \<lparr>name_f = ''Ice'', category = other, quantity = 0, compartment = ''freezer-1'',
         dateAdded = ''2024-01-01T00:00:00.000Z'', expiryDate = ''2024-01-08T00:00:00.000Z''\<rparr>
        example_state))) = 0"
    by simp
  ultimately show ?thesis by simp
qed

text \<open>
  C1 as stated fails: after \<open>updateFood(id, {quantity: 0})\<close> the item's quantity is 0,
  not at least 1.
\<close>

theorem updateFood_quantity_zero_counterexample:
  "\<not> 1 \<le> quantity (hd (foods (updateFood ''lqu5m2o04fzyo8''
        (no_updates\<lparr>quantity_u := Some 0\<rparr>) example_state)))"
  by (simp add: updateFood_def example_state_def example_beef_def merge_def)

subsection \<open>Identifiers minted by \<open>addFood\<close>\<close>

lemma radix_digit_inj:
  assumes "a < 36" "b < 36" "radix_digit a = radix_digit b"
  shows "a = b"
proof -
  have d: "distinct ''0123456789abcdefghijklmnopqrstuvwxyz''" by simp
  have l: "length ''0123456789abcdefghijklmnopqrstuvwxyz'' = 36" by simp
  show ?thesis
    using assms nth_eq_iff_index_eq [OF d, of a b] unfolding radix_digit_def l by simp
qed

lemma toStringRadix36_nonempty: "toStringRadix 36 n \<noteq> []"
  by (subst toStringRadix.simps) simp

text \<open>A number with \<open>k + 1\<close> digits in base 36 is printed with \<open>k + 1\<close> characters.\<close>

lemma toStringRadix36_length:
  "36 ^ k \<le> n \<Longrightarrow> n < 36 ^ Suc k \<Longrightarrow> length (toStringRadix 36 n) = Suc k"
proof (induction k arbitrary: n)
  case 0
  then show ?case by (subst toStringRadix.simps) simp
next
  case (Suc k)
  have "(36::nat) ^ Suc k = 36 * 36 ^ k" by simp
  moreover have "(1::nat) \<le> 36 ^ k" by simp
  ultimately have "(36::nat) \<le> 36 ^ Suc k" by (metis mult.right_neutral mult_le_mono2)
  then have ge: "36 \<le> n" using Suc.prems(1) by (rule le_trans)
  have lo: "36 ^ k \<le> n div 36"
    using Suc.prems(1) by (simp add: less_eq_div_iff_mult_less_eq mult.commute)
  have hi: "n div 36 < 36 ^ Suc k"
    using Suc.prems(2) by (simp add: div_less_iff_less_mult mult.commute)
  have "length (toStringRadix 36 n) = Suc (length (toStringRadix 36 (n div 36)))"
    using ge by (subst toStringRadix.simps) simp
  then show ?case using Suc.IH [OF lo hi] by simp
qed

text \<open>Printing in base 36 loses nothing: different numbers are printed differently.\<close>

lemma toStringRadix36_inj:
  "toStringRadix 36 n = toStringRadix 36 m \<Longrightarrow> n = m"
proof (induction n arbitrary: m rule: less_induct)
  case (less n)
  show ?case
  proof (cases "n < 36")
    case True
    then have n1: "toStringRadix 36 n = [radix_digit n]" by (subst toStringRadix.simps) simp
    show ?thesis
    proof (cases "m < 36")
      case m: True
      then have "toStringRadix 36 m = [radix_digit m]" by (subst toStringRadix.simps) simp
      with n1 less.prems True m show ?thesis by (simp add: radix_digit_inj)
    next
      case m: False
      then have "toStringRadix 36 m = toStringRadix 36 (m div 36) @ [radix_digit (m mod 36)]"
        by (subst toStringRadix.simps) simp
      with n1 less.prems toStringRadix36_nonempty [of "m div 36"] show ?thesis by simp
    qed
  next
    case False
    then have n2: "toStringRadix 36 n = toStringRadix 36 (n div 36) @ [radix_digit (n mod 36)]"
      by (subst toStringRadix.simps) simp
    show ?thesis
    proof (cases "m < 36")
      case m: True
      then have "toStringRadix 36 m = [radix_digit m]" by (subst toStringRadix.simps) simp
      with n2 less.prems toStringRadix36_nonempty [of "n div 36"] show ?thesis by simp
    next
      case m: False
      then have "toStringRadix 36 m = toStringRadix 36 (m div 36) @ [radix_digit (m mod 36)]"
        by (subst toStringRadix.simps) simp
      with n2 less.prems have p: "toStringRadix 36 (n div 36) = toStringRadix 36 (m div 36)"
        and d: "radix_digit (n mod 36) = radix_digit (m mod 36)" by simp_all
      have "n div 36 < n" using False by simp
      from less.IH [OF this p] have q: "n div 36 = m div 36" .
      from d have r: "n mod 36 = m mod 36" by (intro radix_digit_inj) simp_all
      from q r show ?thesis by (metis div_mult_mod_eq)
    qed
  qed
qed

lemma id_f_addFood:
  "map id_f (foods (addFood env food s)) = map id_f (foods s) @ [generateId env]"
  by (simp add: addFood_def FoodFields.defs FoodItem.defs)

lemma ids_addFoods:
  "map id_f (foods (addFoods calls s))
     = map id_f (foods s) @ map (\<lambda>c. generateId (fst c)) calls"
  by (induction calls s rule: addFoods.induct) (simp_all add: id_f_addFood)

lemma distinct_map_iff:
  assumes "\<forall>x \<in> set xs. \<forall>y \<in> set xs. f x = f y \<longleftrightarrow> g x = g y"
  shows "distinct (map f xs) \<longleftrightarrow> distinct (map g xs)"
  using assms
proof (induction xs)
  case Nil
  then show ?case by simp
next
  case (Cons x xs)
  from Cons.prems have "\<forall>a \<in> set xs. \<forall>b \<in> set xs. f a = f b \<longleftrightarrow> g a = g b"
    by (meson list.set_intros)
  then have ih: "distinct (map f xs) \<longleftrightarrow> distinct (map g xs)" by (rule Cons.IH)
  have "f x \<in> f ` set xs \<longleftrightarrow> g x \<in> g ` set xs"
  proof
    assume "f x \<in> f ` set xs"
    then obtain y where y: "y \<in> set xs" "f x = f y" by auto
    from Cons.prems y(1) have "f x = f y \<longleftrightarrow> g x = g y" by (meson list.set_intros)
    with y show "g x \<in> g ` set xs" by auto
  next
    assume "g x \<in> g ` set xs"
    then obtain y where y: "y \<in> set xs" "g x = g y" by auto
    from Cons.prems y(1) have "f x = f y \<longleftrightarrow> g x = g y" by (meson list.set_intros)
    with y show "f x \<in> f ` set xs" by auto
  qed
  with ih show ?case by simp
qed

text \<open>
  Two identifiers minted at clock readings that are printed equally long are equal
  exactly when the clock readings are equal and the six random digits are.
\<close>

lemma generateId_eq_iff:
  assumes "length (toStringRadix 36 (now e1)) = length (toStringRadix 36 (now e2))"
  shows "generateId e1 = generateId e2
    \<longleftrightarrow> now e1 = now e2 \<and> slice 2 8 (random36 e1) = slice 2 8 (random36 e2)"
  using assms by (auto simp: generateId_def dest: toStringRadix36_inj)

lemma generateId_distinct_iff:
  assumes "\<forall>c \<in> set calls. \<forall>c' \<in> set calls.
      length (toStringRadix 36 (now (fst c))) = length (toStringRadix 36 (now (fst c')))"
  shows "distinct (map (\<lambda>c. generateId (fst c)) calls)
    \<longleftrightarrow> distinct (map (\<lambda>c. (now (fst c), slice 2 8 (random36 (fst c)))) calls)"
proof (rule distinct_map_iff, intro ballI)
  fix x y assume "x \<in> set calls" "y \<in> set calls"
  with assms have "length (toStringRadix 36 (now (fst x))) = length (toStringRadix 36 (now (fst y)))"
    by blast
  from generateId_eq_iff [OF this]
  show "generateId (fst x) = generateId (fst y)
    \<longleftrightarrow> (now (fst x), slice 2 8 (random36 (fst x))) = (now (fst y), slice 2 8 (random36 (fst y)))"
    by simp
qed

text \<open>Clock readings from \<open>36^7\<close> to \<open>36^8 - 1\<close> are printed with eight digits.\<close>

lemma eight_digits:
  assumes "\<forall>c \<in> set calls. 36 ^ 7 \<le> now (fst c) \<and> now (fst c) < 36 ^ 8"
  shows "\<forall>c \<in> set calls. \<forall>c' \<in> set calls.
      length (toStringRadix 36 (now (fst c))) = length (toStringRadix 36 (now (fst c')))"
proof (intro ballI)
  fix c c' assume c: "c \<in> set calls" and c': "c' \<in> set calls"
  have "length (toStringRadix 36 (now (fst c))) = Suc 7"
    using assms c by (intro toStringRadix36_length) auto
  moreover have "length (toStringRadix 36 (now (fst c'))) = Suc 7"
    using assms c' by (intro toStringRadix36_length) auto
  ultimately show "length (toStringRadix 36 (now (fst c))) = length (toStringRadix 36 (now (fst c')))"
    by simp
qed

text \<open>
  Without equally long clock readings, two different pairs of clock reading and random
  digits can give one identifier: the text does not say where the clock part ends.
\<close>

lemma generateId_unequal_lengths:
  "generateId \<lparr>now = 1, random36 = ''0.0abcde''\<rparr> = generateId \<lparr>now = 36, random36 = ''0.abcde''\<rparr>
   \<and> (1::nat, slice 2 8 ''0.0abcde'') \<noteq> (36, slice 2 8 ''0.abcde'')"
  by (simp add: generateId_def slice_def toStringRadix.simps radix_digit_def)

text \<open>
  C2, as the code has it. After any sequence of \<open>addFood\<close> calls from an empty inventory,
  the identifiers in the inventory are the minted identifiers, in the order of the
  calls. When the clock readings of the calls are printed equally long in base 36, and
  so when each has eight digits (from \<open>36^7\<close> to \<open>36^8 - 1\<close> milliseconds, the years 1972
  to 2059), the identifiers are pairwise distinct exactly when the pairs of clock
  reading and six random digits are: two calls get one identifier if and only if they
  read the same millisecond and draw the same six digits.
\<close>

theorem addFoods_identifiers:
  assumes "foods s = []"
  shows "map id_f (foods (addFoods calls s)) = map (\<lambda>c. generateId (fst c)) calls
    \<and> ((\<forall>c \<in> set calls. \<forall>c' \<in> set calls.
           length (toStringRadix 36 (now (fst c))) = length (toStringRadix 36 (now (fst c'))))
       \<longrightarrow> (distinct (map id_f (foods (addFoods calls s)))
            \<longleftrightarrow> distinct (map (\<lambda>c. (now (fst c), slice 2 8 (random36 (fst c)))) calls)))
    \<and> ((\<forall>c \<in> set calls. 36 ^ 7 \<le> now (fst c) \<and> now (fst c) < 36 ^ 8)
       \<longrightarrow> (distinct (map id_f (foods (addFoods calls s)))
            \<longleftrightarrow> distinct (map (\<lambda>c. (now (fst c), slice 2 8 (random36 (fst c)))) calls)))"
proof -
  have ids: "map id_f (foods (addFoods calls s)) = map (\<lambda>c. generateId (fst c)) calls"
    using assms by (simp add: ids_addFoods)
  show ?thesis unfolding ids
    using generateId_distinct_iff [of calls] eight_digits [of calls] by blast
qed

text \<open>Two calls in one millisecond that draw different random digits.\<close>

theorem addFoods_identifiers_witness:
  "foods (resetFridge example_state) = []
   \<and> distinct (map id_f (foods (addFoods
        [(\<lparr>now = 1704067200000, random36 = ''0.4fzyo82mvyr''\<rparr>, example_ice),
         (\<lparr>now = 1704067200000, random36 = ''0.9k2x1c7tq01''\<rparr>, example_ice)]
        (resetFridge example_state))))"
proof -
  let ?calls = "[(\<lparr>now = 1704067200000, random36 = ''0.4fzyo82mvyr''\<rparr>, example_ice),
                 (\<lparr>now = 1704067200000, random36 = ''0.9k2x1c7tq01''\<rparr>, example_ice)]"
  have e: "foods (resetFridge example_state) = []" by (simp add: resetFridge_def)
  have r: "\<forall>c \<in> set ?calls. 36 ^ 7 \<le> now (fst c) \<and> now (fst c) < 36 ^ 8" by simp
  have p: "distinct (map (\<lambda>c. (now (fst c), slice 2 8 (random36 (fst c)))) ?calls)"
    by (simp add: slice_def)
  from addFoods_identifiers [OF e, of ?calls] r p
  have "distinct (map id_f (foods (addFoods ?calls (resetFridge example_state))))"
    by blast
  with e show ?thesis by blast
qed

text \<open>
  C2 as stated fails: two calls in the same millisecond that draw the same random
  component leave two items with one identifier.
\<close>

theorem addFoods_same_reading_counterexample:
  "\<not> distinct (map id_f (foods (addFoods
        [(\<lparr>now = 1704067200000, random36 = ''0.4fzyo82mvyr''\<rparr>, example_ice),
         (\<lparr>now = 1704067200000, random36 = ''0.4fzyo82mvyr''\<rparr>, example_ice)]
        (resetFridge example_state))))"
  by (simp add: addFood_def resetFridge_def FoodFields.defs FoodItem.defs)

subsection \<open>Finishing the setup, then opening the first door\<close>









section \<open>Properties of the compartment helpers\<close>

subsection \<open>Minting instance identifiers\<close>

lemma instances_from_length: "length (instances_from counts ts) = length ts"
  by (induction ts arbitrary: counts) (simp_all add: Let_def)

text \<open>
  The ordinal of the element at position \<open>k\<close> is the count its type started with plus
  the number of times the type occurs up to and including position \<open>k\<close>.
\<close>

lemma instances_from_nth:
  "k < length ts \<Longrightarrow>
   instances_from counts ts ! k =
     \<lparr>id_c = typeId_string (ts ! k) @ ''-'' @
        toStringRadix 10 ((case counts (ts ! k) of None \<Rightarrow> 0 | Some c \<Rightarrow> c)
                           + count_list (take (Suc k) ts) (ts ! k)),
      typeId = ts ! k\<rparr>"
proof (induction ts arbitrary: counts k)
  case Nil
  then show ?case by simp
next
  case (Cons t ts)
  show ?case
  proof (cases k)
    case 0
    then show ?thesis by (simp add: Let_def split: option.split)
  next
    case (Suc j)
    with Cons.prems have j: "j < length ts" by simp
    show ?thesis using Suc Cons.IH [OF j] by (simp add: Let_def split: option.split)
  qed
qed

text \<open>
  C6. \<open>createCompartmentInstances\<close> returns one instance per element of the input, in
  the order of the input. The instance at position \<open>k\<close> has the type at position \<open>k\<close>,
  and its identifier is the type's identifier, a hyphen, and in decimal the number of
  times that type occurs in the input up to and including position \<open>k\<close> (so the first
  occurrence of each type has ordinal 1, whatever other types came before). For
  \<open>['refrigerator', 'freezer', 'refrigerator']\<close> the identifiers are \<open>refrigerator-1\<close>,
  \<open>freezer-1\<close>, \<open>refrigerator-2\<close>.
\<close>

theorem createCompartmentInstances_ordinals:
  "length (createCompartmentInstances ts) = length ts
   \<and> (\<forall>k < length ts.
         typeId (createCompartmentInstances ts ! k) = ts ! k
         \<and> id_c (createCompartmentInstances ts ! k)
             = typeId_string (ts ! k) @ ''-''
               @ toStringRadix 10 (count_list (take (Suc k) ts) (ts ! k)))
   \<and> map id_c (createCompartmentInstances [refrigerator, freezer, refrigerator])
       = [''refrigerator-1'', ''freezer-1'', ''refrigerator-2'']"
proof (intro conjI allI impI)
  show "length (createCompartmentInstances ts) = length ts"
    by (simp add: createCompartmentInstances_def instances_from_length)
next
  fix k assume "k < length ts"
  then show "typeId (createCompartmentInstances ts ! k) = ts ! k"
    by (simp add: createCompartmentInstances_def instances_from_nth)
next
  fix k assume "k < length ts"
  then show "id_c (createCompartmentInstances ts ! k)
      = typeId_string (ts ! k) @ ''-''
        @ toStringRadix 10 (count_list (take (Suc k) ts) (ts ! k))"
    by (simp add: createCompartmentInstances_def instances_from_nth)
next
  show "map id_c (createCompartmentInstances [refrigerator, freezer, refrigerator])
      = [''refrigerator-1'', ''freezer-1'', ''refrigerator-2'']"
    by (simp add: createCompartmentInstances_def toStringRadix.simps radix_digit_def)
qed

text \<open>The third element of \<open>[freezer, vegetable, freezer, freezer]\<close> is \<open>freezer-2\<close>.\<close>

theorem createCompartmentInstances_ordinals_witness:
  "(2::nat) < length [freezer, vegetable, freezer, freezer]
   \<and> createCompartmentInstances [freezer, vegetable, freezer, freezer] ! 2
       = \<lparr>id_c = ''freezer-2'', typeId = freezer\<rparr>"
proof -
  let ?ts = "[freezer, vegetable, freezer, freezer]"
  have k: "(2::nat) < length ?ts" by simp
  from createCompartmentInstances_ordinals [of ?ts] k
  have "typeId (createCompartmentInstances ?ts ! 2) = ?ts ! 2"
    and "id_c (createCompartmentInstances ?ts ! 2)
           = typeId_string (?ts ! 2) @ ''-''
             @ toStringRadix 10 (count_list (take (Suc 2) ?ts) (?ts ! 2))"
    by blast+
  then have "typeId (createCompartmentInstances ?ts ! 2) = freezer"
    and "id_c (createCompartmentInstances ?ts ! 2) = ''freezer-2''"
    by (simp_all add: toStringRadix.simps radix_digit_def)
  then have "createCompartmentInstances ?ts ! 2 = \<lparr>id_c = ''freezer-2'', typeId = freezer\<rparr>"
    by (cases "createCompartmentInstances ?ts ! 2") simp
  with k show ?thesis by blast
qed

subsection \<open>Labels\<close>

lemmas label_defs =
  getCompartmentLabel_def type_name_at_def own_type_def ALL_COMPARTMENT_TYPE_IDS_def
  matches_here_def is_digit_def Object_prototype_keys_def

text \<open>A hyphen and digits at the end are cut off; nothing else is.\<close>

lemma strip_ordinal_suffix:
  assumes "ds \<noteq> []" "list_all is_digit ds"
  shows "strip_ordinal (p @ CHR ''-'' # ds) = p"
proof (induction p)
  case Nil
  then show ?case using assms by (simp add: matches_here_def)
next
  case (Cons c p)
  have "\<not> is_digit CHR ''-''" by (simp add: is_digit_def)
  then have "\<not> matches_here (c # p @ CHR ''-'' # ds)" by (auto simp: matches_here_def)
  with Cons show ?case by simp
qed

lemma strip_ordinal_cases:
  "strip_ordinal s = s
   \<or> (\<exists>ds. ds \<noteq> [] \<and> list_all is_digit ds \<and> s = strip_ordinal s @ CHR ''-'' # ds)"
proof (induction s)
  case Nil
  then show ?case by simp
next
  case (Cons c s)
  show ?case
  proof (cases "matches_here (c # s)")
    case True
    then show ?thesis by (auto simp: matches_here_def)
  next
    case False
    with Cons show ?thesis by auto
  qed
qed

text \<open>
  The three stages of \<open>getCompartmentLabel\<close>: an instance of the configuration with the
  identifier gives its type's name; otherwise the identifier without its ordinal, if it
  is a type identifier, gives that type's name; otherwise the identifier is returned as
  it is, provided that what is left of it is not a key of \<open>Object.prototype\<close>.
\<close>

lemma getCompartmentLabel_stages:
  "config = Some cfg \<Longrightarrow> find (\<lambda>c. id_c c = i) (compartments cfg) = Some inst
     \<Longrightarrow> getCompartmentLabel i config = name_t (COMPARTMENT_TYPES (typeId inst))"
  "config = None \<or> (\<exists>cfg. config = Some cfg \<and> find (\<lambda>c. id_c c = i) (compartments cfg) = None)
     \<Longrightarrow> own_type (strip_ordinal i) = Some t
     \<Longrightarrow> getCompartmentLabel i config = name_t (COMPARTMENT_TYPES t)"
  "config = None \<or> (\<exists>cfg. config = Some cfg \<and> find (\<lambda>c. id_c c = i) (compartments cfg) = None)
     \<Longrightarrow> own_type (strip_ordinal i) = None
     \<Longrightarrow> strip_ordinal i \<notin> set Object_prototype_keys
     \<Longrightarrow> getCompartmentLabel i config = i"
  by (auto simp: getCompartmentLabel_def type_name_at_def Object_prototype_keys_def)

text \<open>
  C9. Without a configuration, \<open>freezer-3\<close> is labelled with the name of the type
  \<open>freezer\<close>. The identifier \<open>constructor\<close> is no type identifier, with or without an
  ordinal, and yet is not returned as it is: the label is \<open>Object\<close>, the name of the
  function that \<open>COMPARTMENT_TYPES['constructor']\<close> inherits.
\<close>

theorem getCompartmentLabel_constructor:
  "getCompartmentLabel ''freezer-3'' None = name_t (COMPARTMENT_TYPES freezer)
   \<and> own_type ''constructor'' = None
   \<and> getCompartmentLabel ''constructor'' None = ''Object''
   \<and> own_type (strip_ordinal ''constructor-2'') = None
   \<and> getCompartmentLabel ''constructor-2'' None = ''Object''"
  by (simp add: label_defs)

section \<open>Properties of the loaders\<close>

lemmas json_defs =
  JSON_parse_def skip_ws_def is_ws_def parse_number_def parse_fraction_def
  parse_exponent_def digits_value_def is_digit_def hex_value_def utf8_def escape_char_def
  parse_chars.simps parse_value.simps parse_elements.simps parse_members.simps
  char_of_def bit_Suc_0_iff

lemma JSON_parse_examples:
  "JSON_parse ''{broken'' = Inl SyntaxError"
  "JSON_parse ''[1, 2]'' = Inr (JArr [JNum 1 0, JNum 2 0])"
  "JSON_parse ''{}'' = Inr (JObj [])"
  "JSON_parse ''5'' = Inr (JNum 5 0)"
  by (simp_all add: json_defs)

text \<open>
  The models of \<open>JSON.stringify\<close> and \<open>JSON.parse\<close> agree on the sample inventory:
  what is saved parses to the members that were written.
\<close>

lemma JSON_parse_stringify_sample:
  "JSON_parse (stringify_foods [example_beef]) =
     Inr (JArr [JObj [(''name'', JStr ''Beef''), (''category'', JStr ''meat''),
                      (''quantity'', JNum 2 0), (''compartment'', JStr ''freezer-1''),
                      (''dateAdded'', JStr ''2024-01-01T00:00:00.000Z''),
                      (''expiryDate'', JStr ''2024-01-04T00:00:00.000Z''),
                      (''id'', JStr ''lqu5m2o04fzyo8'')]])"
  by (simp add: stringify_foods_def stringify_FoodItem_def array_json_def object_json_def
      member_json_def QuoteJSONString_def quote_char_def show_int_def toStringRadix.simps
      radix_digit_def example_beef_def json_defs)

lemma load_try_cases:
  "load_try parse ls key =
     (case ls of
        None \<Rightarrow> Inl SecurityError
      | Some m \<Rightarrow>
          (case m key of
             None \<Rightarrow> Inr None
           | Some r \<Rightarrow> if r = [] then Inr None else map_sum (\<lambda>e. e) Some (parse r)))"
  by (simp add: load_try_def getItem_def split: option.split sum.split)

lemma loadFoods_cases:
  "loadFoods parse ls =
     Inr (case ls of
            None \<Rightarrow> JArr []
          | Some m \<Rightarrow>
              (case m ''fridge-app-foods'' of
                 None \<Rightarrow> JArr []
               | Some r \<Rightarrow>
                   if r = [] then JArr []
                   else (case parse r of Inl e \<Rightarrow> JArr [] | Inr v \<Rightarrow> v)))"
  by (simp add: loadFoods_def FOODS_STORAGE_KEY_def load_try_cases split: option.split sum.split)

lemma loadFridgeConfig_cases:
  "loadFridgeConfig parse ls =
     Inr (case ls of
            None \<Rightarrow> JNull
          | Some m \<Rightarrow>
              (case m ''fridgeConfig'' of
                 None \<Rightarrow> JNull
               | Some r \<Rightarrow>
                   if r = [] then JNull
                   else (case parse r of Inl e \<Rightarrow> JNull | Inr v \<Rightarrow> v)))"
  by (simp add: loadFridgeConfig_def FRIDGE_CONFIG_KEY_def load_try_cases
      split: option.split sum.split)

text \<open>
  C7, as the code has it. Neither loader throws, whatever the storage holds and
  whatever the parser does. When the storage cannot be read, the record is absent or
  the empty text, or the parser throws, \<open>loadFoods\<close> returns \<open>[]\<close> and
  \<open>loadFridgeConfig\<close> returns \<open>null\<close>. In every other case the loader returns the value
  the parser returned, whatever its shape.
\<close>

theorem loaders_fail_soft:
  "(\<exists>v. loadFoods parse ls = Inr v) \<and> (\<exists>v. loadFridgeConfig parse ls = Inr v)
   \<and> (ls = None \<longrightarrow>
         loadFoods parse ls = Inr (JArr []) \<and> loadFridgeConfig parse ls = Inr JNull)
   \<and> (\<forall>m. ls = Some m \<longrightarrow>
         ((m ''fridge-app-foods'' = None \<or> m ''fridge-app-foods'' = Some []
            \<or> (\<exists>r e. m ''fridge-app-foods'' = Some r \<and> parse r = Inl e))
           \<longrightarrow> loadFoods parse ls = Inr (JArr []))
         \<and> ((m ''fridgeConfig'' = None \<or> m ''fridgeConfig'' = Some []
            \<or> (\<exists>r e. m ''fridgeConfig'' = Some r \<and> parse r = Inl e))
           \<longrightarrow> loadFridgeConfig parse ls = Inr JNull)
         \<and> (\<forall>r v. m ''fridge-app-foods'' = Some r \<and> r \<noteq> [] \<and> parse r = Inr v
           \<longrightarrow> loadFoods parse ls = Inr v)
         \<and> (\<forall>r v. m ''fridgeConfig'' = Some r \<and> r \<noteq> [] \<and> parse r = Inr v
           \<longrightarrow> loadFridgeConfig parse ls = Inr v))"
proof (intro conjI allI impI)
  show "\<exists>v. loadFoods parse ls = Inr v" by (simp add: loadFoods_cases)
  show "\<exists>v. loadFridgeConfig parse ls = Inr v" by (simp add: loadFridgeConfig_cases)
next
  assume "ls = None"
  then show "loadFoods parse ls = Inr (JArr [])" by (simp add: loadFoods_cases)
next
  assume "ls = None"
  then show "loadFridgeConfig parse ls = Inr JNull" by (simp add: loadFridgeConfig_cases)
next
  fix m
  assume "ls = Some m"
    and "m ''fridge-app-foods'' = None \<or> m ''fridge-app-foods'' = Some []
       \<or> (\<exists>r e. m ''fridge-app-foods'' = Some r \<and> parse r = Inl e)"
  then show "loadFoods parse ls = Inr (JArr [])"
    by (auto simp: loadFoods_cases)
next
  fix m
  assume "ls = Some m"
    and "m ''fridgeConfig'' = None \<or> m ''fridgeConfig'' = Some []
       \<or> (\<exists>r e. m ''fridgeConfig'' = Some r \<and> parse r = Inl e)"
  then show "loadFridgeConfig parse ls = Inr JNull"
    by (auto simp: loadFridgeConfig_cases)
next
  fix m r v
  assume "ls = Some m" and "m ''fridge-app-foods'' = Some r \<and> r \<noteq> [] \<and> parse r = Inr v"
  then show "loadFoods parse ls = Inr v" by (simp add: loadFoods_cases)
next
  fix m r v
  assume "ls = Some m" and "m ''fridgeConfig'' = Some r \<and> r \<noteq> [] \<and> parse r = Inr v"
  then show "loadFridgeConfig parse ls = Inr v" by (simp add: loadFridgeConfig_cases)
qed

text \<open>
  With the model of \<open>JSON.parse\<close>: an inventory record that does not parse gives \<open>[]\<close>,
  a configuration record that parses is returned as parsed, and an unreadable storage
  gives \<open>[]\<close> and \<open>null\<close>.
\<close>

theorem loaders_fail_soft_witness:
  "loadFoods JSON_parse (Some example_corrupt_storage) = Inr (JArr [])
   \<and> loadFridgeConfig JSON_parse (Some example_corrupt_storage)
       = Inr (JArr [JNum 1 0, JNum 2 0])
   \<and> loadFoods JSON_parse None = Inr (JArr [])
   \<and> loadFridgeConfig JSON_parse None = Inr JNull"
proof -
  have f: "example_corrupt_storage ''fridge-app-foods'' = Some ''{broken''"
    and c: "example_corrupt_storage ''fridgeConfig'' = Some ''[1, 2]''"
    by (simp_all add: example_corrupt_storage_def)
  note t = loaders_fail_soft [of JSON_parse "Some example_corrupt_storage"]
  from t f JSON_parse_examples(1)
  have 1: "loadFoods JSON_parse (Some example_corrupt_storage) = Inr (JArr [])"
    by blast
  have ne: "''[1, 2]'' \<noteq> []" by simp
  from t c ne JSON_parse_examples(2)
  have 2: "loadFridgeConfig JSON_parse (Some example_corrupt_storage)
      = Inr (JArr [JNum 1 0, JNum 2 0])"
    by blast
  from loaders_fail_soft [of JSON_parse None]
  have 3: "loadFoods JSON_parse None = Inr (JArr [])
      \<and> loadFridgeConfig JSON_parse None = Inr JNull"
    by blast
  from 1 2 3 show ?thesis by blast
qed

text \<open>
  C7 as stated fails: the inventory record \<open>{}\<close> is well-formed JSON, and \<open>loadFoods\<close>
  returns the object it denotes, which is no list and not what a missing record gives;
  the configuration record \<open>5\<close> makes \<open>loadFridgeConfig\<close> return the number 5.
\<close>

theorem loadFoods_misshapen_counterexample:
  "loadFoods JSON_parse (Some example_misshapen_storage) = Inr (JObj [])
   \<and> \<not> is_array (JObj [])
   \<and> loadFoods JSON_parse (Some example_misshapen_storage) \<noteq> Inr (JArr [])
   \<and> loadFridgeConfig JSON_parse (Some example_misshapen_storage) = Inr (JNum 5 0)"
  by (simp add: loadFoods_cases loadFridgeConfig_cases
      example_misshapen_storage_def JSON_parse_examples is_array_def)

section \<open>Properties of the default expiry date\<close>

subsection \<open>The year of a day\<close>












subsection \<open>Adding days to the date\<close>
















subsection \<open>Printing a date and reading it back\<close>

























subsection \<open>The default expiry date\<close>











end
